theory Spec2Isabelle
  imports Main
begin

section \<open>Conversation entries and stream chunks\<close>

text \<open>
  Strings are lists of 8-bit characters, read as the code units U+0000 to U+00FF of a
  JavaScript string. Optional fields of the TypeScript interfaces are \<open>option\<close> values:
  \<open>None\<close> is \<^verbatim>\<open>undefined\<close>. \<^verbatim>\<open>new Date()\<close> reads a clock; the reading is passed in as a
  natural number.
\<close>

datatype entry_type = User | Assistant | Tool_call | Tool_result

record GrokToolCall =
  tc_id :: string
  tc_name :: string
  tc_arguments :: string

record ToolResult =
  tr_success :: bool
  tr_output :: "string option"
  tr_error :: "string option"

record ChatEntry =
  etype :: entry_type
  content :: string
  timestamp :: nat
  isStreaming :: "bool option"
  toolCalls :: "GrokToolCall list option"
  toolCall :: "GrokToolCall option"
  toolResult :: "ToolResult option"

text \<open>The truthiness test \<^verbatim>\<open>entry.isStreaming\<close>: only \<^verbatim>\<open>true\<close> passes.\<close>

definition streaming :: "ChatEntry \<Rightarrow> bool" where
  "streaming entry = (isStreaming entry = Some True)"

datatype StreamingChunk =
    ContentChunk "string option"
  | TokenCountChunk "int option"
  | ToolCallsChunk "GrokToolCall list option"
  | ToolResultChunk "GrokToolCall option" "ToolResult option"
  | DoneChunk

section \<open>State of the chat interface component\<close>

text \<open>
  The \<^verbatim>\<open>useState\<close> cells and \<^verbatim>\<open>useRef\<close> cells of \<^verbatim>\<open>ChatInterfaceWithAgent\<close> that the streaming
  loop touches, the local variable \<^verbatim>\<open>streamingEntry\<close> of \<^verbatim>\<open>processInitialMessage\<close>, and
  \<open>loopActive\<close>, the program counter of that asynchronous function: true while its
  \<^verbatim>\<open>for await\<close> loop is waiting for the stream. \<open>streamingUpdateTimer\<close> holds the delay of
  the pending timeout, or \<open>None\<close> for \<^verbatim>\<open>null\<close>.
\<close>

record state =
  chatHistory :: "ChatEntry list"
  isProcessing :: bool
  isStreamingUI :: bool
  tokenCount :: int
  processingStartTime :: nat
  streamingContentBuffer :: string
  streamingUpdateTimer :: "nat option"
  streamingEntry :: "ChatEntry option"
  loopActive :: bool

definition initialState :: state where
  "initialState =
     \<lparr>chatHistory = [], isProcessing = False, isStreamingUI = False, tokenCount = 0,
      processingStartTime = 0, streamingContentBuffer = [], streamingUpdateTimer = None,
      streamingEntry = None, loopActive = False\<rparr>"

subsection \<open>HistoryStore: size-limited updates\<close>

text \<open>\<^verbatim>\<open>next.length > 100 ? next.slice(-100) : next\<close>\<close>

definition sizeLimited :: "ChatEntry list \<Rightarrow> ChatEntry list" where
  "sizeLimited next = (if length next > 100 then drop (length next - 100) next else next)"

definition sizeLimitedSetChatHistory ::
    "(ChatEntry list \<Rightarrow> ChatEntry list) \<Rightarrow> state \<Rightarrow> state" where
  "sizeLimitedSetChatHistory updater s =
     s\<lparr>chatHistory := sizeLimited (updater (chatHistory s))\<rparr>"

text \<open>The argument of \<^verbatim>\<open>addToHistory\<close> is one entry or an array of entries.\<close>

datatype entry_arg = One ChatEntry | Many "ChatEntry list"

fun newEntries :: "entry_arg \<Rightarrow> ChatEntry list" where
  "newEntries (One entry) = [entry]"
| "newEntries (Many entries) = entries"

definition addToHistory :: "entry_arg \<Rightarrow> state \<Rightarrow> state" where
  "addToHistory entry = sizeLimitedSetChatHistory (\<lambda>prev. prev @ newEntries entry)"

subsection \<open>ContentCoalescer: the buffer and its flush\<close>

definition flushStreamingContent :: "state \<Rightarrow> state" where
  "flushStreamingContent s =
     (if streamingContentBuffer s \<noteq> [] then
        let buffered = streamingContentBuffer s;
            s1 = s\<lparr>streamingContentBuffer := []\<rparr>
        in sizeLimitedSetChatHistory
             (\<lambda>prev. map (\<lambda>(idx, entry).
                        if idx = int (length prev) - 1 \<and> streaming entry
                        then entry\<lparr>content := content entry @ buffered\<rparr>
                        else entry)
                      (zip (map int [0..<length prev]) prev))
             s1
      else s)"

text \<open>The callback given to \<^verbatim>\<open>setTimeout\<close>; it runs only while the timeout is pending.\<close>

definition timerCallback :: "state \<Rightarrow> state" where
  "timerCallback s =
     (case streamingUpdateTimer s of
        None \<Rightarrow> s
      | Some delay \<Rightarrow> (flushStreamingContent s)\<lparr>streamingUpdateTimer := None\<rparr>)"


section \<open>StreamDispatcher: the loop of \<^verbatim>\<open>processInitialMessage\<close>\<close>

text \<open>\<^verbatim>\<open>x || d\<close> on an optional string: the default replaces \<^verbatim>\<open>undefined\<close> and the empty string.\<close>

definition orElse :: "string option \<Rightarrow> string \<Rightarrow> string" where
  "orElse x d = (case x of None \<Rightarrow> d | Some v \<Rightarrow> if v = [] then d else v)"

definition stopStreaming :: "ChatEntry \<Rightarrow> ChatEntry" where
  "stopStreaming entry = (if streaming entry then entry\<lparr>isStreaming := Some False\<rparr> else entry)"

definition resolveToolCall :: "GrokToolCall \<Rightarrow> ToolResult \<Rightarrow> ChatEntry \<Rightarrow> ChatEntry" where
  "resolveToolCall call result entry =
     (if streaming entry then entry\<lparr>isStreaming := Some False\<rparr>
      else if etype entry = Tool_call \<and> map_option tc_id (toolCall entry) = Some (tc_id call)
      then entry\<lparr>etype := Tool_result,
                  content := (if tr_success result
                              then orElse (tr_output result) ''Success''
                              else orElse (tr_error result) ''Error occurred''),
                  toolResult := Some result\<rparr>
      else entry)"

text \<open>The body of the \<^verbatim>\<open>switch\<close>, one equation for each \<^verbatim>\<open>case\<close>; \<open>now\<close> is the clock.\<close>

fun handleChunk :: "nat \<Rightarrow> StreamingChunk \<Rightarrow> state \<Rightarrow> state" where
  "handleChunk now (ContentChunk c) s =
     (case c of
        None \<Rightarrow> s
      | Some text \<Rightarrow>
          if text = [] then s
          else (case streamingEntry s of
                  None \<Rightarrow>
                    let newStreamingEntry =
                          \<lparr>etype = Assistant, content = text, timestamp = now,
                           isStreaming = Some True, toolCalls = None, toolCall = None,
                           toolResult = None\<rparr>
                    in (addToHistory (One newStreamingEntry) s)
                         \<lparr>streamingEntry := Some newStreamingEntry\<rparr>
                | Some _ \<Rightarrow>
                    s\<lparr>streamingContentBuffer := streamingContentBuffer s @ text,
                      streamingUpdateTimer := Some 50\<rparr>))"
| "handleChunk now (TokenCountChunk n) s =
     (case n of None \<Rightarrow> s | Some k \<Rightarrow> s\<lparr>tokenCount := k\<rparr>)"
| "handleChunk now (ToolCallsChunk tcs) s =
     (case tcs of
        None \<Rightarrow> s
      | Some calls \<Rightarrow>
          let s1 = flushStreamingContent (s\<lparr>streamingUpdateTimer := None\<rparr>);
              s2 = sizeLimitedSetChatHistory
                     (map (\<lambda>entry. if streaming entry
                                   then entry\<lparr>isStreaming := Some False, toolCalls := Some calls\<rparr>
                                   else entry))
                     s1;
              s3 = s2\<lparr>streamingEntry := None\<rparr>;
              toolCallEntries =
                map (\<lambda>call. \<lparr>etype = Tool_call, content = ''Executing...'', timestamp = now,
                              isStreaming = None, toolCalls = None, toolCall = Some call,
                              toolResult = None\<rparr>)
                    calls
          in addToHistory (Many toolCallEntries) s3)"
| "handleChunk now (ToolResultChunk tc tr) s =
     (case (tc, tr) of
        (Some call, Some result) \<Rightarrow>
          (sizeLimitedSetChatHistory (map (resolveToolCall call result)) s)
            \<lparr>streamingEntry := None\<rparr>
      | _ \<Rightarrow> s)"
| "handleChunk now DoneChunk s =
     (let s1 = flushStreamingContent (s\<lparr>streamingUpdateTimer := None\<rparr>);
          s2 = (case streamingEntry s1 of
                  None \<Rightarrow> s1
                | Some _ \<Rightarrow> sizeLimitedSetChatHistory (map stopStreaming) s1)
      in s2\<lparr>isStreamingUI := False\<rparr>)"

text \<open>
  What the asynchronous iterator of \<^verbatim>\<open>agent.processUserMessageStream\<close> can do when the loop
  asks for the next chunk: yield one, reject with an error (its \<^verbatim>\<open>message\<close>), or end.
\<close>

datatype stream_event = Yields StreamingChunk | Throws string | Returns

definition catchBlock :: "nat \<Rightarrow> string \<Rightarrow> state \<Rightarrow> state" where
  "catchBlock now message s =
     (let errorEntry =
            \<lparr>etype = Assistant, content = ''Error: '' @ message, timestamp = now,
             isStreaming = None, toolCalls = None, toolCall = None, toolResult = None\<rparr>
      in (addToHistory (One errorEntry) s)\<lparr>isStreamingUI := False\<rparr>)"

definition afterLoop :: "state \<Rightarrow> state" where
  "afterLoop s = s\<lparr>isProcessing := False, processingStartTime := 0, loopActive := False\<rparr>"

text \<open>
  One step of the single timeline: the loop receives the next stream event at clock
  reading \<open>now\<close>, or the pending timeout fires. Once the loop has ended nothing consumes
  the stream any more.
\<close>

datatype action = Stream nat stream_event | TimerFires

fun step :: "state \<Rightarrow> action \<Rightarrow> state" where
  "step s TimerFires = timerCallback s"
| "step s (Stream now ev) =
     (if \<not> loopActive s then s
      else (case ev of
              Yields chunk \<Rightarrow> handleChunk now chunk s
            | Throws message \<Rightarrow> afterLoop (catchBlock now message s)
            | Returns \<Rightarrow> afterLoop s))"

text \<open>
  The effect that starts a turn: for a non-empty \<^verbatim>\<open>initialMessage\<close> it replaces the history
  by the user entry and enters \<^verbatim>\<open>processInitialMessage\<close> with \<^verbatim>\<open>streamingEntry = null\<close>.
\<close>

definition startTurn :: "nat \<Rightarrow> string \<Rightarrow> state \<Rightarrow> state" where
  "startTurn now initialMessage s =
     (if initialMessage = [] then s
      else s\<lparr>chatHistory :=
                [\<lparr>etype = User, content = initialMessage, timestamp = now, isStreaming = None,
                  toolCalls = None, toolCall = None, toolResult = None\<rparr>],
             isProcessing := True, isStreamingUI := True, streamingEntry := None,
             loopActive := True\<rparr>)"

section \<open>Turns made of content chunks\<close>

text \<open>
  Actions of a turn in which the stream yields only \<^verbatim>\<open>content\<close> chunks while the timeout may fire
  at any point, the text each action delivers, and the state of the coalescer after the
  deltas \<open>d\<close> have arrived in a turn opened by the user entry \<open>u\<close>.
\<close>

fun contentOrTimer :: "action \<Rightarrow> bool" where
  "contentOrTimer (Stream now (Yields (ContentChunk c))) = True"
| "contentOrTimer TimerFires = True"
| "contentOrTimer _ = False"

fun delta :: "action \<Rightarrow> string" where
  "delta (Stream now (Yields (ContentChunk (Some text)))) = text"
| "delta _ = []"

definition coalescing :: "ChatEntry \<Rightarrow> string \<Rightarrow> state \<Rightarrow> bool" where
  "coalescing u d s =
     (loopActive s \<and>
      (if d = [] then chatHistory s = [u] \<and> streamingEntry s = None \<and> streamingContentBuffer s = []
       else \<exists>a. chatHistory s = [u, a] \<and> streaming a \<and> etype a = Assistant \<and>
                streamingEntry s \<noteq> None \<and> content a @ streamingContentBuffer s = d))"

section \<open>Reachable states of the streaming loop\<close>




section \<open>Two concrete turns\<close>

text \<open>A turn whose stream fails after its first content chunk.\<close>

definition interruptedTurn :: "action list" where
  "interruptedTurn =
     [Stream 1 (Yields (ContentChunk (Some ''Hel''))), Stream 2 (Throws ''socket hang up'')]"

text \<open>
  The state of a turn after two content chunks, the second still in the buffer, and a
  \<^verbatim>\<open>tool_result\<close> chunk for a call that no history entry mentions.
\<close>

definition midStream :: state where
  "midStream =
     foldl step (startTurn 0 ''hi'' initialState)
       [Stream 1 (Yields (ContentChunk (Some ''a''))),
        Stream 2 (Yields (ContentChunk (Some ''b'')))]"

definition unmatchedResult :: StreamingChunk where
  "unmatchedResult =
     ToolResultChunk (Some \<lparr>tc_id = ''call_9'', tc_name = ''bash'', tc_arguments = ''{}''\<rparr>)
                     (Some \<lparr>tr_success = True, tr_output = Some ''ok'', tr_error = None\<rparr>)"

section \<open>CommandGate: the command validator\<close>

subsection \<open>String primitives\<close>

text \<open>
  White space as \<^verbatim>\<open>String.prototype.trim\<close> and the class \<^verbatim>\<open>\s\<close> see it, among the code units
  below U+0100: tab, line feed, vertical tab, form feed, carriage return, space and
  no-break space.
\<close>

definition isWhiteSpace :: "char \<Rightarrow> bool" where
  "isWhiteSpace c =
     (c \<in> set [CHR 0x09, CHR 0x0A, CHR 0x0B, CHR 0x0C, CHR 0x0D, CHR 0x20, CHR 0xA0])"

definition trim :: "string \<Rightarrow> string" where
  "trim s = rev (dropWhile isWhiteSpace (rev (dropWhile isWhiteSpace s)))"

definition startsWith :: "string \<Rightarrow> string \<Rightarrow> bool" where
  "startsWith s p = (take (length p) s = p)"

fun includes_str :: "string \<Rightarrow> string \<Rightarrow> bool" where
  "includes_str [] needle = (needle = [])"
| "includes_str (c # cs) needle = (startsWith (c # cs) needle \<or> includes_str cs needle)"

subsection \<open>Regular expressions\<close>

text \<open>
  The fragment of regular expressions that \<^verbatim>\<open>DANGEROUS_PATTERNS\<close> uses: literal text, one
  character of a class (a given character, \<^verbatim>\<open>\s\<close>, or \<^verbatim>\<open>.\<close>, which excludes the line
  terminators), its repetitions \<^verbatim>\<open>+\<close> and \<^verbatim>\<open>*\<close>, sequence, alternation and negative lookahead.
  \<open>rests r s\<close> lists what can remain of \<open>s\<close> after a match of \<open>r\<close> at its start, over all
  choices the backtracking matcher can make; \<^verbatim>\<open>test\<close> without flags searches every start
  position.
\<close>

datatype atom = Ch char | Space | Dot

datatype regex =
    Str string
  | Plus atom
  | Star atom
  | Seq regex regex
  | Alt regex regex
  | NotAhead regex

fun atomMatches :: "atom \<Rightarrow> char \<Rightarrow> bool" where
  "atomMatches (Ch a) c = (c = a)"
| "atomMatches Space c = isWhiteSpace c"
| "atomMatches Dot c = (c \<noteq> CHR 0x0A \<and> c \<noteq> CHR 0x0D)"

fun starRests :: "atom \<Rightarrow> string \<Rightarrow> string list" where
  "starRests a [] = [[]]"
| "starRests a (c # cs) = (c # cs) # (if atomMatches a c then starRests a cs else [])"

fun rests :: "regex \<Rightarrow> string \<Rightarrow> string list" where
  "rests (Str p) s = (if startsWith s p then [drop (length p) s] else [])"
| "rests (Plus a) s =
     (case s of [] \<Rightarrow> [] | c # cs \<Rightarrow> if atomMatches a c then starRests a cs else [])"
| "rests (Star a) s = starRests a s"
| "rests (Seq r1 r2) s = concat (map (rests r2) (rests r1 s))"
| "rests (Alt r1 r2) s = rests r1 s @ rests r2 s"
| "rests (NotAhead r) s = (if rests r s = [] then [s] else [])"

fun test :: "regex \<Rightarrow> string \<Rightarrow> bool" where
  "test r [] = (rests r [] \<noteq> [])"
| "test r (c # cs) = (rests r (c # cs) \<noteq> [] \<or> test r cs)"

fun seqs :: "regex list \<Rightarrow> regex" where
  "seqs [] = Str []"
| "seqs [r] = r"
| "seqs (r # rs) = Seq r (seqs rs)"

subsection \<open>The rule tables\<close>

datatype severity = Warning | Error

record CommandValidationResult =
  isValid :: bool
  reason :: "string option"
  severity :: "severity option"

text \<open>The entries of the object \<^verbatim>\<open>DANGEROUS_COMMANDS\<close>, in insertion order.\<close>

definition DANGEROUS_COMMANDS :: "(string \<times> severity \<times> string) list" where
  "DANGEROUS_COMMANDS =
     [(''rm -rf /'', Error, ''Attempting to delete root directory''),
      (''rm -rf /*'', Error, ''Attempting to delete all files in root''),
      (''rm -rf ~'', Error, ''Attempting to delete home directory''),
      (''rm -rf $HOME'', Error, ''Attempting to delete home directory''),
      (''mkfs'', Error, ''Attempting to format filesystem''),
      (''dd if='', Error, ''Direct disk write operation''),
      ('':(){ :|:& };:'', Error, ''Fork bomb detected'')]"

definition DANGEROUS_PATTERNS :: "(regex \<times> severity \<times> string) list" where
  "DANGEROUS_PATTERNS =
     [(seqs [Str ''rm'', Plus Space, Str ''-rf'', Plus Space, Str ''/'',
             NotAhead (Alt (Str ''tmp'') (Str ''var/tmp''))],
       Error, ''Attempting to recursively delete from root directory''),
      (seqs [Str ''rm'', Plus Space, Str ''-rf'', Star Dot, Str ''*''],
       Warning, ''Recursive deletion with wildcards''),
      (seqs [Plus (Ch (CHR ''>'')), Star Space, Str ''/dev/'',
             Alt (Str ''sda'') (Alt (Str ''hda'') (Str ''nvme''))],
       Error, ''Attempting to write directly to disk device''),
      (seqs [Str ''chmod'', Plus Space, Str ''777'', Plus Space, Str ''/''],
       Warning, ''Setting overly permissive permissions on root''),
      (seqs [Str ''curl'', Star Dot, Str ''|'', Star Space, Str ''bash''],
       Warning, ''Piping remote script directly to bash''),
      (seqs [Str ''wget'', Star Dot, Str ''|'', Star Space, Str ''bash''],
       Warning, ''Piping remote script directly to bash''),
      (seqs [Str ''eval'', Plus Space, Str ''$(''],
       Warning, ''Using eval with command substitution''),
      (seqs [Str '':(){'', Star Dot, Str '':|:&'', Star Space, Str ''};:''],
       Error, ''Fork bomb detected'')]"

definition HIGH_RISK_COMMANDS :: "string list" where
  "HIGH_RISK_COMMANDS =
     [''rm'', ''rmdir'', ''unlink'', ''dd'', ''mkfs'', ''fdisk'', ''chmod'', ''chown'', ''kill'',
      ''killall'', ''shutdown'', ''reboot'', ''halt'', ''init'']"

subsection \<open>\<^verbatim>\<open>validateCommand\<close> and its companions\<close>

definition invalid :: "string \<Rightarrow> severity \<Rightarrow> CommandValidationResult" where
  "invalid why sev = \<lparr>isValid = False, reason = Some why, severity = Some sev\<rparr>"

text \<open>The two \<^verbatim>\<open>for\<close> loops, each returning at its first hit.\<close>

fun checkCommands ::
    "(string \<times> severity \<times> string) list \<Rightarrow> string \<Rightarrow> CommandValidationResult option" where
  "checkCommands [] trimmed = None"
| "checkCommands ((dangerousCmd, sev, why) # others) trimmed =
     (if trimmed = dangerousCmd \<or> includes_str trimmed dangerousCmd then Some (invalid why sev)
      else checkCommands others trimmed)"

fun checkPatterns ::
    "(regex \<times> severity \<times> string) list \<Rightarrow> string \<Rightarrow> CommandValidationResult option" where
  "checkPatterns [] trimmed = None"
| "checkPatterns ((pattern, sev, why) # others) trimmed =
     (if test pattern trimmed then Some (invalid why sev)
      else checkPatterns others trimmed)"

definition validateCommand :: "string \<Rightarrow> CommandValidationResult" where
  "validateCommand command =
     (let trimmed = trim command in
      if trimmed = [] then invalid ''Empty command'' Error
      else (case checkCommands DANGEROUS_COMMANDS trimmed of
              Some blocked \<Rightarrow> blocked
            | None \<Rightarrow>
                (case checkPatterns DANGEROUS_PATTERNS trimmed of
                   Some blocked \<Rightarrow> blocked
                 | None \<Rightarrow> \<lparr>isValid = True, reason = None, severity = None\<rparr>)))"

text \<open>
  \<^verbatim>\<open>command.trim().split(/\s+/)[0]\<close>: the text before the first white space of the trimmed
  command (the empty string when nothing is left).
\<close>

definition isHighRiskCommand :: "string \<Rightarrow> bool" where
  "isHighRiskCommand command =
     (let firstWord = takeWhile (\<lambda>c. \<not> isWhiteSpace c) (trim command)
      in firstWord \<in> set HIGH_RISK_COMMANDS)"

text \<open>
  The two emoji of the warning message lie outside the code units modelled here; each
  is a constant, written as its UTF-8 bytes. A template prints a missing value as
  \<^verbatim>\<open>undefined\<close>.
\<close>

definition noEntryEmoji :: string where
  "noEntryEmoji = [CHR 0xF0, CHR 0x9F, CHR 0x9A, CHR 0xAB]"

definition warningEmoji :: string where
  "warningEmoji = [CHR 0xE2, CHR 0x9A, CHR 0xA0, CHR 0xEF, CHR 0xB8, CHR 0x8F]"

definition printed :: "string option \<Rightarrow> string" where
  "printed x = (case x of None \<Rightarrow> ''undefined'' | Some v \<Rightarrow> v)"

definition getCommandWarningMessage :: "string \<Rightarrow> string option" where
  "getCommandWarningMessage command =
     (let validation = validateCommand command in
      if \<not> isValid validation then
        Some ((if severity validation = Some Error then noEntryEmoji else warningEmoji)
              @ '' '' @ printed (reason validation))
      else if isHighRiskCommand command then
        Some (warningEmoji @ '' This command modifies system state and requires confirmation'')
      else None)"

section \<open>RateLimiter\<close>

text \<open>
  \<^verbatim>\<open>Date.now()\<close> is passed in as \<open>now\<close>, an integer number of milliseconds; the counts and the
  window are integers as well. An entry of the window is a pair of its timestamp and its
  command.
\<close>

record CommandRateLimiter =
  commandHistory :: "(int \<times> string) list"
  maxCommandsPerMinute :: int
  windowMs :: int

definition newCommandRateLimiter :: "int \<Rightarrow> int \<Rightarrow> CommandRateLimiter" where
  "newCommandRateLimiter maxCommands window =
     \<lparr>commandHistory = [], maxCommandsPerMinute = maxCommands, windowMs = window\<rparr>"

record RateCheck =
  allowed :: bool
  rateReason :: "string option"
  retryAfter :: "int option"

text \<open>Decimal printing of a number in a template.\<close>

fun showNat :: "nat \<Rightarrow> string" where
  "showNat n =
     (if n < 10 then [char_of (48 + n)] else showNat (n div 10) @ [char_of (48 + n mod 10)])"

definition showInt :: "int \<Rightarrow> string" where
  "showInt i = (if i < 0 then ''-'' @ showNat (nat (- i)) else showNat (nat i))"

text \<open>\<^verbatim>\<open>Math.ceil(x / 1000)\<close> on integers.\<close>

definition ceilDiv1000 :: "int \<Rightarrow> int" where
  "ceilDiv1000 x = - ((- x) div 1000)"

datatype js_error = TypeError string

text \<open>
  \<^verbatim>\<open>canExecute\<close> returns its answer and the limiter after the call. Reading
  \<^verbatim>\<open>oldestCommand.timestamp\<close> of an empty window (possible only when the maximum is not
  positive) throws.
\<close>

definition canExecute ::
    "int \<Rightarrow> string \<Rightarrow> CommandRateLimiter \<Rightarrow> (js_error + RateCheck) \<times> CommandRateLimiter" where
  "canExecute now command limiter =
     (let kept = filter (\<lambda>(stamp, cmd). now - stamp < windowMs limiter) (commandHistory limiter);
          purged = limiter\<lparr>commandHistory := kept\<rparr>
      in if int (length kept) \<ge> maxCommandsPerMinute limiter then
           (case kept of
              [] \<Rightarrow>
                (Inl (TypeError ''Cannot read properties of undefined (reading 'timestamp')''),
                 purged)
            | (oldest, cmd) # rest \<Rightarrow>
                (Inr \<lparr>allowed = False,
                      rateReason = Some (''Rate limit exceeded: '' @
                                  showInt (maxCommandsPerMinute limiter) @
                                  '' commands per minute''),
                      retryAfter = Some (ceilDiv1000 (oldest + windowMs limiter - now))\<rparr>,
                 purged))
         else (Inr \<lparr>allowed = True, rateReason = None, retryAfter = None\<rparr>,
               purged\<lparr>commandHistory := kept @ [(now, command)]\<rparr>))"

definition reset :: "CommandRateLimiter \<Rightarrow> CommandRateLimiter" where
  "reset limiter = limiter\<lparr>commandHistory := []\<rparr>"

text \<open>\<^verbatim>\<open>getStats\<close> without its floating-point field \<^verbatim>\<open>utilizationPercent\<close>.\<close>

definition getStats :: "int \<Rightarrow> CommandRateLimiter \<Rightarrow> nat \<times> int" where
  "getStats now limiter =
     (length (filter (\<lambda>(stamp, cmd). now - stamp < windowMs limiter) (commandHistory limiter)),
      maxCommandsPerMinute limiter)"

section \<open>BashTool\<close>

text \<open>
  What \<^verbatim>\<open>execute\<close> calls outside this module is a parameter: the session flags and the answer
  of the confirmation service, \<^verbatim>\<open>process.chdir\<close> followed by \<^verbatim>\<open>process.cwd\<close>, and the child
  process. \<open>Inl\<close> is a thrown error with its message. The calls made are recorded as
  effects. Console output is not modelled.
\<close>

record SessionFlags =
  fileOperations :: bool
  bashCommands :: bool
  allOperations :: bool

record ConfirmationOptions =
  operation :: string
  filename :: string
  showVSCodeOpen :: bool
  details :: string

record ConfirmationResult =
  confirmed :: bool
  dontAskAgain :: "bool option"
  feedback :: "string option"

record world =
  getSessionFlags :: SessionFlags
  requestConfirmation :: "ConfirmationOptions \<Rightarrow> string \<Rightarrow> string + ConfirmationResult"
  chdir :: "string \<Rightarrow> string + string"
  execAsync :: "string \<Rightarrow> string \<Rightarrow> nat \<Rightarrow> string + string \<times> string"

datatype effect =
    ConfirmationRequested ConfirmationOptions
  | DirectoryChange string
  | Executed string

record BashTool =
  currentDirectory :: string
  rateLimiter :: CommandRateLimiter

record outcome =
  answer :: ToolResult
  after :: BashTool
  effects :: "effect list"

definition failure :: "string \<Rightarrow> ToolResult" where
  "failure message = \<lparr>tr_success = False, tr_output = None, tr_error = Some message\<rparr>"

definition succeeded :: "string \<Rightarrow> ToolResult" where
  "succeeded text = \<lparr>tr_success = True, tr_output = Some text, tr_error = None\<rparr>"

text \<open>The part of \<^verbatim>\<open>execute\<close> after the confirmation gate: the command runs.\<close>

definition runCommand :: "world \<Rightarrow> string \<Rightarrow> nat \<Rightarrow> BashTool \<Rightarrow> effect list \<Rightarrow> outcome" where
  "runCommand w command timeout tool done =
     (if startsWith command ''cd '' then
        (let newDir = trim (drop 3 command) in
         case chdir w newDir of
           Inl message \<Rightarrow>
             \<lparr>answer = failure (''Cannot change directory: '' @ message), after = tool,
              effects = done @ [DirectoryChange newDir]\<rparr>
         | Inr cwd \<Rightarrow>
             \<lparr>answer = succeeded (''Changed directory to: '' @ cwd),
              after = tool\<lparr>currentDirectory := cwd\<rparr>,
              effects = done @ [DirectoryChange newDir]\<rparr>)
      else
        (case execAsync w command (currentDirectory tool) timeout of
           Inl message \<Rightarrow>
             \<lparr>answer = failure (''Command failed: '' @ message), after = tool,
              effects = done @ [Executed command]\<rparr>
         | Inr (stdout, stderr) \<Rightarrow>
             (let out = stdout @ (if stderr \<noteq> [] then [CHR 0x0A] @ ''STDERR: '' @ stderr else [])
              in \<lparr>answer = succeeded (orElse (Some (trim out))
                                         ''Command executed successfully (no output)''),
                  after = tool, effects = done @ [Executed command]\<rparr>)))"

definition confirmationFor :: "string \<Rightarrow> BashTool \<Rightarrow> ConfirmationOptions" where
  "confirmationFor command tool =
     \<lparr>operation = ''Run bash command'', filename = command, showVSCodeOpen = False,
      details = ''Command: '' @ command @ [CHR 0x0A] @ ''Working directory: '' @
                currentDirectory tool @
                (case getCommandWarningMessage command of
                   None \<Rightarrow> []
                 | Some warningMsg \<Rightarrow>
                     if warningMsg = [] then [] else [CHR 0x0A, CHR 0x0A] @ warningMsg)\<rparr>"

definition execute :: "world \<Rightarrow> int \<Rightarrow> string \<Rightarrow> nat \<Rightarrow> BashTool \<Rightarrow> outcome" where
  "execute w now command timeout tool =
     (let validation = validateCommand command in
      if \<not> isValid validation then
        \<lparr>answer = failure (''Command blocked for safety: '' @
                           orElse (getCommandWarningMessage command) (printed (reason validation))),
         after = tool, effects = []\<rparr>
      else
        (case canExecute now command (rateLimiter tool) of
           (Inl (TypeError message), limiter) \<Rightarrow>
             \<lparr>answer = failure (''Command failed: '' @ message),
              after = tool\<lparr>rateLimiter := limiter\<rparr>, effects = []\<rparr>
         | (Inr rateLimitCheck, limiter) \<Rightarrow>
             (let tool1 = tool\<lparr>rateLimiter := limiter\<rparr> in
              if \<not> allowed rateLimitCheck then
                \<lparr>answer = failure (printed (rateReason rateLimitCheck) @ ''. Retry after '' @
                                   printed (map_option showInt (retryAfter rateLimitCheck)) @ ''s''),
                 after = tool1, effects = []\<rparr>
              else
                (let sessionFlags = getSessionFlags w;
                     needsConfirmation =
                       (isHighRiskCommand command \<or>
                        (\<not> bashCommands sessionFlags \<and> \<not> allOperations sessionFlags))
                 in if needsConfirmation then
                      (case requestConfirmation w (confirmationFor command tool1) ''bash'' of
                         Inl message \<Rightarrow>
                           \<lparr>answer = failure (''Command failed: '' @ message), after = tool1,
                            effects = [ConfirmationRequested (confirmationFor command tool1)]\<rparr>
                       | Inr confirmationResult \<Rightarrow>
                           if \<not> confirmed confirmationResult then
                             \<lparr>answer = failure (orElse (feedback confirmationResult)
                                                 ''Command execution cancelled by user''),
                              after = tool1,
                              effects = [ConfirmationRequested (confirmationFor command tool1)]\<rparr>
                           else runCommand w command timeout tool1
                                  [ConfirmationRequested (confirmationFor command tool1)])
                    else runCommand w command timeout tool1 []))))"

section \<open>Calls in sequence\<close>

text \<open>The limiter after a sequence of calls of \<^verbatim>\<open>canExecute\<close>, each at its own time.\<close>

definition afterCalls :: "(int \<times> string) list \<Rightarrow> CommandRateLimiter \<Rightarrow> CommandRateLimiter" where
  "afterCalls calls limiter = foldl (\<lambda>l (now, command). snd (canExecute now command l)) limiter calls"

definition admitted :: RateCheck where
  "admitted = \<lparr>allowed = True, rateReason = None, retryAfter = None\<rparr>"

text \<open>A world in which both session flags are set and the operator rejects every request.\<close>

definition rejectingWorld :: world where
  "rejectingWorld =
     \<lparr>getSessionFlags = \<lparr>fileOperations = False, bashCommands = True, allOperations = True\<rparr>,
      requestConfirmation =
        (\<lambda>options kind. Inr \<lparr>confirmed = False, dontAskAgain = None, feedback = None\<rparr>),
      chdir = (\<lambda>dir. Inr dir),
      execAsync = (\<lambda>command cwd timeout. Inr ([], []))\<rparr>"

definition freshTool :: BashTool where
  "freshTool = \<lparr>currentDirectory = ''/work'', rateLimiter = newCommandRateLimiter 30 60000\<rparr>"

text \<open>A tool whose window holds one entry that has expired by time 70000.\<close>

definition usedTool :: BashTool where
  "usedTool =
     \<lparr>currentDirectory = ''/work'',
      rateLimiter = afterCalls [(0, ''ls'')] (newCommandRateLimiter 30 60000)\<rparr>"

text \<open>The entries of the window that have not expired at time \<open>now\<close>.\<close>

definition unexpired :: "int \<Rightarrow> CommandRateLimiter \<Rightarrow> (int \<times> string) list" where
  "unexpired now limiter =
     filter (\<lambda>(stamp, cmd). now - stamp < windowMs limiter) (commandHistory limiter)"

section \<open>HistoryStore retention\<close>

lemma sizeLimited_length: "length (sizeLimited xs) \<le> 100"
  by (simp add: sizeLimited_def)

lemma sizeLimited_append: "sizeLimited (sizeLimited xs @ ys) = sizeLimited (xs @ ys)"
  by (auto simp: sizeLimited_def ac_simps)

lemma sizeLimited_last:
  assumes "100 \<le> length ys"
  shows "sizeLimited (xs @ ys) = drop (length ys - 100) ys"
proof (cases "xs = []")
  case True
  with assms show ?thesis by (simp add: sizeLimited_def)
next
  case False
  with assms have "100 < length (xs @ ys)" by (cases xs) auto
  with assms show ?thesis by (simp add: sizeLimited_def)
qed

lemma addToHistory_history:
  "chatHistory (addToHistory e s) = sizeLimited (chatHistory s @ newEntries e)"
  by (simp add: addToHistory_def sizeLimitedSetChatHistory_def)

lemma appends_history:
  "es \<noteq> [] \<Longrightarrow>
   chatHistory (foldl (\<lambda>s e. addToHistory e s) s es) =
     sizeLimited (chatHistory s @ concat (map newEntries es))"
proof (induction es arbitrary: s)
  case Nil
  then show ?case by simp
next
  case (Cons e es)
  show ?case
  proof (cases "es = []")
    case True
    then show ?thesis by (simp add: addToHistory_history)
  next
    case False
    from Cons.IH [OF False, of "addToHistory e s"]
    show ?thesis by (simp add: addToHistory_history sizeLimited_append)
  qed
qed

text \<open>
  C2. After any sequence of calls of \<^verbatim>\<open>addToHistory\<close> (each with one entry or an array)
  that adds more than 100 entries in total, the history is exactly the last 100 of the
  added entries, in the order in which they were added, whatever the history held
  before.
\<close>

theorem history_keeps_last_100:
  assumes "100 < length (concat (map newEntries es))"
  shows "chatHistory (foldl (\<lambda>s e. addToHistory e s) s es) =
           drop (length (concat (map newEntries es)) - 100) (concat (map newEntries es))
         \<and> length (chatHistory (foldl (\<lambda>s e. addToHistory e s) s es)) = 100"
proof -
  from assms have "es \<noteq> []" by auto
  then have "chatHistory (foldl (\<lambda>s e. addToHistory e s) s es) =
      sizeLimited (chatHistory s @ concat (map newEntries es))"
    by (rule appends_history)
  with assms show ?thesis by (simp add: sizeLimited_last)
qed

theorem history_keeps_last_100_witness:
  "100 < length (concat (map newEntries
       [Many (replicate 100 \<lparr>etype = User, content = ''a'', timestamp = 0, isStreaming = None,
                               toolCalls = None, toolCall = None, toolResult = None\<rparr>),
        One \<lparr>etype = Assistant, content = ''b'', timestamp = 1, isStreaming = None,
             toolCalls = None, toolCall = None, toolResult = None\<rparr>]))
   \<and> chatHistory (foldl (\<lambda>s e. addToHistory e s) initialState
       [Many (replicate 100 \<lparr>etype = User, content = ''a'', timestamp = 0, isStreaming = None,
                               toolCalls = None, toolCall = None, toolResult = None\<rparr>),
        One \<lparr>etype = Assistant, content = ''b'', timestamp = 1, isStreaming = None,
             toolCalls = None, toolCall = None, toolResult = None\<rparr>])
     = replicate 99 \<lparr>etype = User, content = ''a'', timestamp = 0, isStreaming = None,
                      toolCalls = None, toolCall = None, toolResult = None\<rparr>
       @ [\<lparr>etype = Assistant, content = ''b'', timestamp = 1, isStreaming = None,
            toolCalls = None, toolCall = None, toolResult = None\<rparr>]"
  using history_keeps_last_100
    [of "[Many (replicate 100 \<lparr>etype = User, content = ''a'', timestamp = 0, isStreaming = None,
                               toolCalls = None, toolCall = None, toolResult = None\<rparr>),
          One \<lparr>etype = Assistant, content = ''b'', timestamp = 1, isStreaming = None,
             toolCalls = None, toolCall = None, toolResult = None\<rparr>]" initialState]
  by simp

section \<open>ContentCoalescer\<close>

lemma flush_empties_buffer: "streamingContentBuffer (flushStreamingContent s) = []"
  by (simp add: flushStreamingContent_def sizeLimitedSetChatHistory_def Let_def)

text \<open>
  C9. \<^verbatim>\<open>flushStreamingContent\<close> is idempotent: in every state a second flush directly
  after a first one changes nothing, so the history (and every other part of the state)
  after the second flush is the one after the first.
\<close>

theorem flush_idempotent:
  "flushStreamingContent (flushStreamingContent s) = flushStreamingContent s
   \<and> chatHistory (flushStreamingContent (flushStreamingContent s)) =
       chatHistory (flushStreamingContent s)"
proof -
  have "flushStreamingContent (flushStreamingContent s) = flushStreamingContent s"
    using flush_empties_buffer [of s]
    by (subst (1) flushStreamingContent_def) simp
  then show ?thesis by simp
qed
section \<open>No delta is lost\<close>

lemma flush_pair:
  assumes "chatHistory s = [u, a]" "streaming a" "\<not> streaming u"
  shows "flushStreamingContent s =
           s\<lparr>chatHistory := [u, a\<lparr>content := content a @ streamingContentBuffer s\<rparr>],
             streamingContentBuffer := []\<rparr>"
  using assms
  by (simp add: flushStreamingContent_def sizeLimitedSetChatHistory_def sizeLimited_def Let_def
      upt_rec)

lemma flush_single:
  assumes "chatHistory s = [u]" "\<not> streaming u"
  shows "flushStreamingContent s = s\<lparr>streamingContentBuffer := []\<rparr>"
  using assms
  by (simp add: flushStreamingContent_def sizeLimitedSetChatHistory_def sizeLimited_def Let_def
      upt_rec)

lemma coalescing_step:
  assumes "coalescing u d s" "\<not> streaming u" "contentOrTimer a"
  shows "coalescing u (d @ delta a) (step s a)"
proof (cases a)
  case TimerFires
  show ?thesis
  proof (cases "d = []")
    case True
    with assms TimerFires show ?thesis
      by (auto simp: coalescing_def timerCallback_def flush_single split: option.splits)
  next
    case False
    with assms obtain e where e: "chatHistory s = [u, e]" "streaming e" "etype e = Assistant"
      "streamingEntry s \<noteq> None" "content e @ streamingContentBuffer s = d" "loopActive s"
      by (auto simp: coalescing_def)
    with assms TimerFires False show ?thesis
      by (auto simp: coalescing_def timerCallback_def flush_pair streaming_def split: option.splits)
  qed
next
  case (Stream now ev)
  with assms obtain c where c: "ev = Yields (ContentChunk c)"
    by (cases ev; cases "case ev of Yields ch \<Rightarrow> ch") auto
  show ?thesis
  proof (cases "d = []")
    case True
    with assms Stream c show ?thesis
      by (auto simp: coalescing_def addToHistory_def sizeLimitedSetChatHistory_def
          sizeLimited_def streaming_def Let_def split: option.splits)
  next
    case False
    with assms obtain e where e: "chatHistory s = [u, e]" "streaming e" "etype e = Assistant"
      "streamingEntry s \<noteq> None" "content e @ streamingContentBuffer s = d" "loopActive s"
      by (auto simp: coalescing_def)
    with Stream c False show ?thesis
      by (auto simp: coalescing_def split: option.splits)
  qed
qed

lemma coalescing_run:
  assumes "coalescing u d s" "\<not> streaming u" "list_all contentOrTimer as"
  shows "coalescing u (d @ concat (map delta as)) (foldl step s as)"
  using assms
proof (induction as arbitrary: d s)
  case Nil
  then show ?case by simp
next
  case (Cons a as)
  from Cons.prems have "coalescing u (d @ delta a) (step s a)"
    by (simp add: coalescing_step)
  from Cons.IH [OF this] Cons.prems show ?case by simp
qed

lemma coalescing_done:
  assumes "coalescing u d s" "\<not> streaming u"
  shows "map content (chatHistory (step s (Stream t (Yields DoneChunk)))) =
           content u # (if d = [] then [] else [d])
       \<and> map etype (chatHistory (step s (Stream t (Yields DoneChunk)))) =
           etype u # (if d = [] then [] else [Assistant])
       \<and> list_all (\<lambda>e. \<not> streaming e) (chatHistory (step s (Stream t (Yields DoneChunk))))
       \<and> streamingContentBuffer (step s (Stream t (Yields DoneChunk))) = []"
proof (cases "d = []")
  case True
  with assms have "chatHistory (s\<lparr>streamingUpdateTimer := None\<rparr>) = [u]"
    "streamingEntry s = None" "loopActive s"
    by (auto simp: coalescing_def)
  with assms(2) True show ?thesis
    by (simp add: flush_single Let_def)
next
  case False
  with assms obtain e where e: "chatHistory (s\<lparr>streamingUpdateTimer := None\<rparr>) = [u, e]"
      "streaming e" "etype e = Assistant"
      "streamingEntry s \<noteq> None" "content e @ streamingContentBuffer s = d" "loopActive s"
    by (auto simp: coalescing_def)
  with assms(2) False show ?thesis
    by (auto simp: flush_pair Let_def sizeLimitedSetChatHistory_def sizeLimited_def
        stopStreaming_def streaming_def)
qed

lemma startTurn_coalescing:
  assumes "initialMessage \<noteq> []" "streamingContentBuffer s = []"
  shows "coalescing \<lparr>etype = User, content = initialMessage, timestamp = now, isStreaming = None,
                  toolCalls = None, toolCall = None, toolResult = None\<rparr> [] (startTurn now initialMessage s)"
  using assms by (simp add: coalescing_def startTurn_def)

text \<open>
  C1. In a turn whose stream yields only \<^verbatim>\<open>content\<close> chunks and then \<^verbatim>\<open>done\<close>, with the
  coalescing timeout firing at any points in between, the history ends as the user entry
  followed by one assistant entry whose content is the concatenation of all deltas in
  arrival order (no assistant entry when every delta is empty); no entry is streaming and
  the buffer is empty.
\<close>

theorem content_concatenated:
  assumes "list_all contentOrTimer as" and "initialMessage \<noteq> []"
    and "streamingContentBuffer s = []"
  shows "map content (chatHistory (foldl step (startTurn t0 initialMessage s)
                                          (as @ [Stream t (Yields DoneChunk)]))) =
           initialMessage # (if concat (map delta as) = [] then [] else [concat (map delta as)])
       \<and> map etype (chatHistory (foldl step (startTurn t0 initialMessage s)
                                          (as @ [Stream t (Yields DoneChunk)]))) =
           User # (if concat (map delta as) = [] then [] else [Assistant])
       \<and> list_all (\<lambda>e. \<not> streaming e)
            (chatHistory (foldl step (startTurn t0 initialMessage s)
                                     (as @ [Stream t (Yields DoneChunk)])))
       \<and> streamingContentBuffer (foldl step (startTurn t0 initialMessage s)
                                          (as @ [Stream t (Yields DoneChunk)])) = []"
proof -
  let ?u = "\<lparr>etype = User, content = initialMessage, timestamp = t0, isStreaming = None,
             toolCalls = None, toolCall = None, toolResult = None\<rparr>"
  have u: "\<not> streaming ?u" by (simp add: streaming_def)
  have "coalescing ?u [] (startTurn t0 initialMessage s)"
    using assms(2,3) by (rule startTurn_coalescing)
  from coalescing_run [OF this u assms(1)]
  have "coalescing ?u (concat (map delta as)) (foldl step (startTurn t0 initialMessage s) as)"
    by simp
  from coalescing_done [OF this u, of t] show ?thesis by simp
qed

theorem content_concatenated_witness:
  "list_all contentOrTimer
     [Stream 1 (Yields (ContentChunk (Some ''Hel''))), Stream 2 (Yields (ContentChunk (Some ''lo''))),
      TimerFires, Stream 3 (Yields (ContentChunk (Some '' wor''))),
      Stream 4 (Yields (ContentChunk (Some ''ld'')))]
   \<and> ''hi'' \<noteq> [] \<and> streamingContentBuffer initialState = []
   \<and> map content (chatHistory (foldl step (startTurn 0 ''hi'' initialState)
       ([Stream 1 (Yields (ContentChunk (Some ''Hel''))), Stream 2 (Yields (ContentChunk (Some ''lo''))),
         TimerFires, Stream 3 (Yields (ContentChunk (Some '' wor''))),
         Stream 4 (Yields (ContentChunk (Some ''ld'')))] @ [Stream 5 (Yields DoneChunk)])))
     = [''hi'', ''Hello world'']"
  using content_concatenated
    [of "[Stream 1 (Yields (ContentChunk (Some ''Hel''))), Stream 2 (Yields (ContentChunk (Some ''lo''))),
      TimerFires, Stream 3 (Yields (ContentChunk (Some '' wor''))),
      Stream 4 (Yields (ContentChunk (Some ''ld'')))]" "''hi''" initialState 0 5]
  by (simp add: initialState_def)
section \<open>At most one streaming entry\<close>



















section \<open>The fault path\<close>

lemma isStreaming_map_zip:
  assumes "length is = length xs" and "\<And>i e. isStreaming (g (i, e)) = isStreaming e"
  shows "map isStreaming (map g (zip is xs)) = map isStreaming xs"
  using assms(1)
  by (induction "is" xs rule: list_induct2) (simp_all add: assms(2))

lemma sizeLimited_small: "length xs \<le> 100 \<Longrightarrow> sizeLimited xs = xs"
  by (simp add: sizeLimited_def)

lemma flush_keeps_flags:
  assumes "length (chatHistory s) \<le> 100"
  shows "map isStreaming (chatHistory (flushStreamingContent s)) = map isStreaming (chatHistory s)"
proof (cases "streamingContentBuffer s = []")
  case True
  then show ?thesis by (simp add: flushStreamingContent_def)
next
  case False
  let ?m = "map (\<lambda>(idx, entry).
                        if idx = int (length (chatHistory s)) - 1 \<and> streaming entry
                        then entry\<lparr>content := content entry @ streamingContentBuffer s\<rparr>
                        else entry)
                      (zip (map int [0..<length (chatHistory s)]) (chatHistory s))"
  have eq: "map isStreaming ?m = map isStreaming (chatHistory s)"
    by (rule isStreaming_map_zip) simp_all
  have "length ?m = length (chatHistory s)" by simp
  with assms have "sizeLimited ?m = ?m" by (simp only: sizeLimited_small)
  with eq have "map isStreaming (sizeLimited ?m) = map isStreaming (chatHistory s)"
    by (simp only:)
  with False show ?thesis
    by (simp add: flushStreamingContent_def sizeLimitedSetChatHistory_def Let_def)
qed

lemma flush_loopActive: "loopActive (flushStreamingContent s) = loopActive s"
  by (simp add: flushStreamingContent_def sizeLimitedSetChatHistory_def Let_def)

lemma ended_step:
  assumes "\<not> loopActive s" "length (chatHistory s) \<le> 100"
  shows "\<not> loopActive (step s a) \<and>
         map isStreaming (chatHistory (step s a)) = map isStreaming (chatHistory s)"
proof (cases a)
  case (Stream now ev)
  with assms show ?thesis by simp
next
  case TimerFires
  with assms show ?thesis
    by (simp add: timerCallback_def flush_keeps_flags flush_loopActive split: option.splits)
qed

lemma ended_run:
  assumes "\<not> loopActive s" "length (chatHistory s) \<le> 100"
  shows "\<not> loopActive (foldl step s as) \<and>
         map isStreaming (chatHistory (foldl step s as)) = map isStreaming (chatHistory s)"
  using assms
proof (induction as arbitrary: s)
  case Nil
  then show ?case by simp
next
  case (Cons a as)
  from ended_step [OF Cons.prems, of a]
  have 1: "\<not> loopActive (step s a)"
    and 2: "map isStreaming (chatHistory (step s a)) = map isStreaming (chatHistory s)"
    by simp_all
  from 2 have "length (chatHistory (step s a)) = length (chatHistory s)"
    using map_eq_imp_length_eq by blast
  with Cons.prems have 3: "length (chatHistory (step s a)) \<le> 100" by simp
  from Cons.IH [OF 1 3] 2 show ?case by simp
qed

text \<open>
  C5. A turn whose stream yields the content chunk \<^verbatim>\<open>Hel\<close> and then fails with the message
  \<^verbatim>\<open>socket hang up\<close>: the catch block appends exactly one assistant entry describing the
  failure and the turn ends (the loop is left, \<^verbatim>\<open>isStreaming\<close> and \<^verbatim>\<open>isProcessing\<close> of the
  component are false), but the assistant entry created for \<^verbatim>\<open>Hel\<close> keeps
  \<^verbatim>\<open>isStreaming = true\<close>, and nothing that can happen afterwards (a late stream event, a
  timer firing) clears it.
\<close>

theorem fault_leaves_entry_streaming:
  "map content (chatHistory (foldl step (startTurn 0 ''hi'' initialState) interruptedTurn)) =
     [''hi'', ''Hel'', ''Error: socket hang up'']
   \<and> map isStreaming (chatHistory (foldl step (startTurn 0 ''hi'' initialState) interruptedTurn)) =
     [None, Some True, None]
   \<and> \<not> loopActive (foldl step (startTurn 0 ''hi'' initialState) interruptedTurn)
   \<and> \<not> isStreamingUI (foldl step (startTurn 0 ''hi'' initialState) interruptedTurn)
   \<and> \<not> isProcessing (foldl step (startTurn 0 ''hi'' initialState) interruptedTurn)
   \<and> (\<forall>later. map isStreaming (chatHistory
          (foldl step (foldl step (startTurn 0 ''hi'' initialState) interruptedTurn) later)) =
        [None, Some True, None])"
proof -
  let ?s = "foldl step (startTurn 0 ''hi'' initialState) interruptedTurn"
  have a: "map content (chatHistory ?s) = [''hi'', ''Hel'', ''Error: socket hang up'']"
    by code_simp
  have b: "map isStreaming (chatHistory ?s) = [None, Some True, None]"
    by code_simp
  have c: "\<not> loopActive ?s" "\<not> isStreamingUI ?s" "\<not> isProcessing ?s"
    by code_simp+
  from b have "length (chatHistory ?s) = 3"
    using map_eq_imp_length_eq by fastforce
  then have "length (chatHistory ?s) \<le> 100" by simp
  from ended_run [OF c(1) this] b
  have "\<forall>later. map isStreaming (chatHistory (foldl step ?s later)) = [None, Some True, None]"
    by simp
  with a b c show ?thesis by blast
qed
section \<open>Tool results\<close>

text \<open>
  C3. In \<open>midStream\<close> the history holds the user entry and the streaming assistant entry
  with content \<^verbatim>\<open>a\<close>, and the delta \<^verbatim>\<open>b\<close> waits in the buffer with the timeout pending. The
  \<^verbatim>\<open>tool_result\<close> case does not flush: it clears the streaming flag and leaves \<^verbatim>\<open>b\<close> in the
  buffer. When the timeout fires afterwards, or \<^verbatim>\<open>done\<close> arrives, the flush finds no
  streaming entry and empties the buffer without appending it, so the delta \<^verbatim>\<open>b\<close> is lost
  and the entry keeps the content \<^verbatim>\<open>a\<close>. With a flush before the \<^verbatim>\<open>tool_result\<close> case, as
  the \<^verbatim>\<open>tool_calls\<close> and \<^verbatim>\<open>done\<close> cases have it, the entry would hold \<^verbatim>\<open>ab\<close>.
\<close>

theorem tool_result_loses_buffered_delta:
  "map content (chatHistory midStream) = [''hi'', ''a'']
   \<and> map isStreaming (chatHistory midStream) = [None, Some True]
   \<and> streamingContentBuffer midStream = ''b''
   \<and> map content (chatHistory (step midStream (Stream 3 (Yields unmatchedResult)))) = [''hi'', ''a'']
   \<and> map isStreaming (chatHistory (step midStream (Stream 3 (Yields unmatchedResult)))) =
       [None, Some False]
   \<and> streamingContentBuffer (step midStream (Stream 3 (Yields unmatchedResult))) = ''b''
   \<and> map content (chatHistory
         (step (step midStream (Stream 3 (Yields unmatchedResult))) TimerFires)) = [''hi'', ''a'']
   \<and> streamingContentBuffer
         (step (step midStream (Stream 3 (Yields unmatchedResult))) TimerFires) = []
   \<and> map content (chatHistory
         (step (step midStream (Stream 3 (Yields unmatchedResult))) (Stream 4 (Yields DoneChunk))))
       = [''hi'', ''a'']
   \<and> streamingContentBuffer
         (step (step midStream (Stream 3 (Yields unmatchedResult))) (Stream 4 (Yields DoneChunk)))
       = []
   \<and> map content (chatHistory
         (step (flushStreamingContent midStream) (Stream 3 (Yields unmatchedResult))))
       = [''hi'', ''ab'']"
  by code_simp

section \<open>Order of the validation checks\<close>

lemma includes_str_self: "includes_str s s"
  by (cases s) (simp_all add: startsWith_def)

lemma checkCommands_find:
  "checkCommands table trimmed =
     map_option (\<lambda>(dangerousCmd, sev, why). invalid why sev)
       (find (\<lambda>(dangerousCmd, sev, why). includes_str trimmed dangerousCmd) table)"
  by (induction table trimmed rule: checkCommands.induct) (auto simp: includes_str_self)

lemma checkPatterns_find:
  "checkPatterns table trimmed =
     map_option (\<lambda>(pattern, sev, why). invalid why sev)
       (find (\<lambda>(pattern, sev, why). test pattern trimmed) table)"
  by (induction table trimmed rule: checkPatterns.induct) auto

text \<open>
  C6. \<^verbatim>\<open>validateCommand\<close> checks in a fixed order: the trimmed command is empty; else the first
  entry of \<^verbatim>\<open>DANGEROUS_COMMANDS\<close> that the trimmed command equals or contains decides; else the
  first pattern of \<^verbatim>\<open>DANGEROUS_PATTERNS\<close> that matches decides, whatever the later patterns
  say; else the command is valid. So \<^verbatim>\<open>rm -rf /\<close> is invalid with severity \<^verbatim>\<open>error\<close>,
  \<^verbatim>\<open>ls -la\<close> is valid, and the empty command is invalid with reason \<^verbatim>\<open>Empty command\<close>.
\<close>

theorem validateCommand_order:
  "validateCommand command =
     (if trim command = [] then invalid ''Empty command'' Error
      else (case find (\<lambda>(dangerousCmd, sev, why). includes_str (trim command) dangerousCmd)
                   DANGEROUS_COMMANDS of
              Some (dangerousCmd, sev, why) \<Rightarrow> invalid why sev
            | None \<Rightarrow>
                (case find (\<lambda>(pattern, sev, why). test pattern (trim command))
                        DANGEROUS_PATTERNS of
                   Some (pattern, sev, why) \<Rightarrow> invalid why sev
                 | None \<Rightarrow> \<lparr>isValid = True, reason = None, severity = None\<rparr>)))
   \<and> validateCommand ''rm -rf /'' =
       \<lparr>isValid = False, reason = Some ''Attempting to delete root directory'',
        severity = Some Error\<rparr>
   \<and> validateCommand ''ls -la'' = \<lparr>isValid = True, reason = None, severity = None\<rparr>
   \<and> validateCommand '''' =
       \<lparr>isValid = False, reason = Some ''Empty command'', severity = Some Error\<rparr>"
proof -
  have order: "validateCommand command =
     (if trim command = [] then invalid ''Empty command'' Error
      else (case find (\<lambda>(dangerousCmd, sev, why). includes_str (trim command) dangerousCmd)
                   DANGEROUS_COMMANDS of
              Some (dangerousCmd, sev, why) \<Rightarrow> invalid why sev
            | None \<Rightarrow>
                (case find (\<lambda>(pattern, sev, why). test pattern (trim command))
                        DANGEROUS_PATTERNS of
                   Some (pattern, sev, why) \<Rightarrow> invalid why sev
                 | None \<Rightarrow> \<lparr>isValid = True, reason = None, severity = None\<rparr>)))"
    unfolding validateCommand_def Let_def checkCommands_find checkPatterns_find
    by (auto split: option.splits)
  have rm: "validateCommand ''rm -rf /'' =
       \<lparr>isValid = False, reason = Some ''Attempting to delete root directory'',
        severity = Some Error\<rparr>"
    by code_simp
  have ls: "validateCommand ''ls -la'' = \<lparr>isValid = True, reason = None, severity = None\<rparr>"
    by code_simp
  have empty: "validateCommand '''' =
       \<lparr>isValid = False, reason = Some ''Empty command'', severity = Some Error\<rparr>"
    by code_simp
  from order rm ls empty show ?thesis by blast
qed
section \<open>Admission by the rate limiter\<close>

lemma ceilDiv1000_bounds: "1000 * (ceilDiv1000 x - 1) < x \<and> x \<le> 1000 * ceilDiv1000 x"
proof -
  define q where "q = (- x) div 1000"
  define r where "r = (- x) mod 1000"
  have "q * 1000 + r = - x" unfolding q_def r_def by (rule div_mult_mod_eq)
  moreover have "0 \<le> r" unfolding r_def by simp
  moreover have "r < 1000" unfolding r_def by simp
  ultimately have "1000 * (- q - 1) < x \<and> x \<le> 1000 * - q" by auto
  then show ?thesis unfolding ceilDiv1000_def q_def .
qed

lemma ceilDiv1000_pos: "0 < x \<Longrightarrow> 0 < ceilDiv1000 x"
  using ceilDiv1000_bounds [of x] by simp


lemma canExecute_accepts:
  assumes "int (length (unexpired now limiter)) < maxCommandsPerMinute limiter"
  shows "canExecute now command limiter =
           (Inr admitted, limiter\<lparr>commandHistory := unexpired now limiter @ [(now, command)]\<rparr>)"
  using assms by (simp add: canExecute_def unexpired_def admitted_def Let_def)

lemma canExecute_rejects:
  assumes "0 < maxCommandsPerMinute limiter"
    and "maxCommandsPerMinute limiter \<le> int (length (unexpired now limiter))"
  shows "canExecute now command limiter =
           (Inr \<lparr>allowed = False,
                 rateReason = Some (''Rate limit exceeded: '' @
                                    showInt (maxCommandsPerMinute limiter) @
                                    '' commands per minute''),
                 retryAfter = Some (ceilDiv1000
                    (fst (hd (unexpired now limiter)) + windowMs limiter - now))\<rparr>,
            limiter\<lparr>commandHistory := unexpired now limiter\<rparr>)"
proof -
  from assms obtain oldest cmd rest where k: "unexpired now limiter = (oldest, cmd) # rest"
    by (cases "unexpired now limiter") auto
  with assms(2) show ?thesis
    unfolding canExecute_def Let_def unexpired_def [symmetric] by simp
qed

lemma unexpired_remaining:
  assumes "unexpired now limiter \<noteq> []"
  shows "0 < fst (hd (unexpired now limiter)) + windowMs limiter - now"
proof -
  from assms have "hd (unexpired now limiter) \<in> set (unexpired now limiter)" by simp
  then show ?thesis by (auto simp: unexpired_def)
qed

lemma showInt_3: "showInt 3 = ''3''"
  by code_simp

lemma ceilDiv1000_one: "0 < x \<Longrightarrow> x \<le> 1000 \<Longrightarrow> ceilDiv1000 x = 1"
  using ceilDiv1000_bounds [of x] by auto

text \<open>
  C8, as stated, fails on \<^verbatim>\<open>retryAfter\<close>: with three commands admitted at time 0 by a
  limiter for 3 commands per 1000 milliseconds, a fourth call at time 500 is rejected
  with \<^verbatim>\<open>retryAfter = 1\<close>, a number of seconds, while the oldest entry of the window expires
  500 milliseconds later: neither the number 500 nor a duration of half a second.
\<close>

theorem retryAfter_counterexample:
  "fst (canExecute 500 ''cmd4''
     (afterCalls [(0, ''cmd1''), (0, ''cmd2''), (0, ''cmd3'')] (newCommandRateLimiter 3 1000)))
     = Inr \<lparr>allowed = False, rateReason = Some ''Rate limit exceeded: 3 commands per minute'',
            retryAfter = Some 1\<rparr>
   \<and> fst (hd (unexpired 500
       (afterCalls [(0, ''cmd1''), (0, ''cmd2''), (0, ''cmd3'')] (newCommandRateLimiter 3 1000))))
     + windowMs (afterCalls [(0, ''cmd1''), (0, ''cmd2''), (0, ''cmd3'')]
          (newCommandRateLimiter 3 1000)) - 500 = 500"
  by code_simp

text \<open>
  C8, amended. \<^verbatim>\<open>canExecute\<close> first drops the window entries whose age
  \<open>now - timestamp\<close> has reached \<^verbatim>\<open>windowMs\<close>. If fewer than the maximum remain it records
  \<open>(now, command)\<close> and accepts. If the maximum (a positive number) or more remain it
  rejects, keeps the purged window, and reports as \<^verbatim>\<open>retryAfter\<close> the time until the oldest
  remaining entry expires converted to seconds and rounded up, which is at least 1.
  For a limiter of 3 commands per 1000 milliseconds: three admissions succeed; a fourth
  call less than 1000 after the first fails with \<^verbatim>\<open>retryAfter = 1\<close>; a call 1000 or more
  after the first succeeds; and \<^verbatim>\<open>reset\<close> gives back the empty limiter, which admits at once.
\<close>

theorem canExecute_admission:
  "(int (length (unexpired now limiter)) < maxCommandsPerMinute limiter \<longrightarrow>
      canExecute now command limiter =
        (Inr admitted,
         limiter\<lparr>commandHistory := unexpired now limiter @ [(now, command)]\<rparr>))
   \<and> (0 < maxCommandsPerMinute full \<and>
       maxCommandsPerMinute full \<le> int (length (unexpired later full)) \<longrightarrow>
      canExecute later request full =
        (Inr \<lparr>allowed = False,
              rateReason = Some (''Rate limit exceeded: '' @
                                 showInt (maxCommandsPerMinute full) @
                                 '' commands per minute''),
              retryAfter = Some (ceilDiv1000
                 (fst (hd (unexpired later full)) + windowMs full - later))\<rparr>,
         full\<lparr>commandHistory := unexpired later full\<rparr>)
      \<and> 0 < ceilDiv1000 (fst (hd (unexpired later full)) + windowMs full - later)
      \<and> 1000 * (ceilDiv1000 (fst (hd (unexpired later full)) + windowMs full - later) - 1)
            < fst (hd (unexpired later full)) + windowMs full - later
      \<and> fst (hd (unexpired later full)) + windowMs full - later
            \<le> 1000 * ceilDiv1000 (fst (hd (unexpired later full)) + windowMs full - later))
   \<and> (t1 \<le> t2 \<and> t2 \<le> t3 \<and> t3 \<le> t4 \<and> t4 < t1 + 1000 \<and> t1 + 1000 \<le> t5 \<longrightarrow>
        fst (canExecute t1 c1 (newCommandRateLimiter 3 1000)) = Inr admitted
      \<and> fst (canExecute t2 c2 (afterCalls [(t1, c1)] (newCommandRateLimiter 3 1000))) = Inr admitted
      \<and> fst (canExecute t3 c3 (afterCalls [(t1, c1), (t2, c2)] (newCommandRateLimiter 3 1000)))
          = Inr admitted
      \<and> fst (canExecute t4 c4
               (afterCalls [(t1, c1), (t2, c2), (t3, c3)] (newCommandRateLimiter 3 1000)))
          = Inr \<lparr>allowed = False,
                 rateReason = Some ''Rate limit exceeded: 3 commands per minute'',
                 retryAfter = Some 1\<rparr>
      \<and> fst (canExecute t5 c5
               (afterCalls [(t1, c1), (t2, c2), (t3, c3), (t4, c4)] (newCommandRateLimiter 3 1000)))
          = Inr admitted
      \<and> reset (afterCalls [(t1, c1), (t2, c2), (t3, c3), (t4, c4)] (newCommandRateLimiter 3 1000))
          = newCommandRateLimiter 3 1000
      \<and> fst (canExecute t4 c5 (reset
               (afterCalls [(t1, c1), (t2, c2), (t3, c3), (t4, c4)] (newCommandRateLimiter 3 1000))))
          = Inr admitted)"
proof (intro conjI impI)
  assume "int (length (unexpired now limiter)) < maxCommandsPerMinute limiter"
  then show "canExecute now command limiter =
        (Inr admitted,
         limiter\<lparr>commandHistory := unexpired now limiter @ [(now, command)]\<rparr>)"
    by (rule canExecute_accepts)
next
  assume a: "0 < maxCommandsPerMinute full \<and>
       maxCommandsPerMinute full \<le> int (length (unexpired later full))"
  then show "canExecute later request full =
        (Inr \<lparr>allowed = False,
              rateReason = Some (''Rate limit exceeded: '' @
                                 showInt (maxCommandsPerMinute full) @
                                 '' commands per minute''),
              retryAfter = Some (ceilDiv1000
                 (fst (hd (unexpired later full)) + windowMs full - later))\<rparr>,
         full\<lparr>commandHistory := unexpired later full\<rparr>)"
    by (simp add: canExecute_rejects)
  from a have "unexpired later full \<noteq> []" by auto
  then have "0 < fst (hd (unexpired later full)) + windowMs full - later"
    by (rule unexpired_remaining)
  then show "0 < ceilDiv1000 (fst (hd (unexpired later full)) + windowMs full - later)"
    by (rule ceilDiv1000_pos)
  show "1000 * (ceilDiv1000 (fst (hd (unexpired later full)) + windowMs full - later) - 1)
            < fst (hd (unexpired later full)) + windowMs full - later"
    using ceilDiv1000_bounds by blast
  show "fst (hd (unexpired later full)) + windowMs full - later
            \<le> 1000 * ceilDiv1000 (fst (hd (unexpired later full)) + windowMs full - later)"
    using ceilDiv1000_bounds by blast
next
  assume t: "t1 \<le> t2 \<and> t2 \<le> t3 \<and> t3 \<le> t4 \<and> t4 < t1 + 1000 \<and> t1 + 1000 \<le> t5"
  have l1: "afterCalls [(t1, c1)] (newCommandRateLimiter 3 1000) =
      \<lparr>commandHistory = [(t1, c1)], maxCommandsPerMinute = 3, windowMs = 1000\<rparr>"
    by (simp add: afterCalls_def canExecute_def newCommandRateLimiter_def)
  have l2: "afterCalls [(t1, c1), (t2, c2)] (newCommandRateLimiter 3 1000) =
      \<lparr>commandHistory = [(t1, c1), (t2, c2)], maxCommandsPerMinute = 3, windowMs = 1000\<rparr>"
    using t by (simp add: afterCalls_def canExecute_def newCommandRateLimiter_def)
  have l3: "afterCalls [(t1, c1), (t2, c2), (t3, c3)] (newCommandRateLimiter 3 1000) =
      \<lparr>commandHistory = [(t1, c1), (t2, c2), (t3, c3)], maxCommandsPerMinute = 3,
       windowMs = 1000\<rparr>"
    using t by (simp add: afterCalls_def canExecute_def newCommandRateLimiter_def)
  have c: "ceilDiv1000 (t1 + 1000 - t4) = 1"
    using t by (intro ceilDiv1000_one) auto
  have r4: "canExecute t4 c4 \<lparr>commandHistory = [(t1, c1), (t2, c2), (t3, c3)],
                maxCommandsPerMinute = 3, windowMs = 1000\<rparr> =
      (Inr \<lparr>allowed = False,
                 rateReason = Some ''Rate limit exceeded: 3 commands per minute'',
                 retryAfter = Some 1\<rparr>,
       \<lparr>commandHistory = [(t1, c1), (t2, c2), (t3, c3)], maxCommandsPerMinute = 3,
        windowMs = 1000\<rparr>)"
    using t c by (simp add: canExecute_def showInt_3)
  have l4: "afterCalls [(t1, c1), (t2, c2), (t3, c3), (t4, c4)] (newCommandRateLimiter 3 1000) =
      \<lparr>commandHistory = [(t1, c1), (t2, c2), (t3, c3)], maxCommandsPerMinute = 3,
       windowMs = 1000\<rparr>"
  proof -
    have "afterCalls [(t1, c1), (t2, c2), (t3, c3), (t4, c4)] (newCommandRateLimiter 3 1000) =
        snd (canExecute t4 c4
          (afterCalls [(t1, c1), (t2, c2), (t3, c3)] (newCommandRateLimiter 3 1000)))"
      by (simp add: afterCalls_def)
    then show ?thesis by (simp only: l3 r4 snd_conv)
  qed
  show "fst (canExecute t1 c1 (newCommandRateLimiter 3 1000)) = Inr admitted"
    by (simp add: canExecute_def newCommandRateLimiter_def admitted_def)
  show "fst (canExecute t2 c2 (afterCalls [(t1, c1)] (newCommandRateLimiter 3 1000))) = Inr admitted"
    unfolding l1 by (simp add: canExecute_def admitted_def)
  show "fst (canExecute t3 c3 (afterCalls [(t1, c1), (t2, c2)] (newCommandRateLimiter 3 1000)))
          = Inr admitted"
    unfolding l2 by (simp add: canExecute_def admitted_def)
  show "fst (canExecute t4 c4
               (afterCalls [(t1, c1), (t2, c2), (t3, c3)] (newCommandRateLimiter 3 1000)))
          = Inr \<lparr>allowed = False,
                 rateReason = Some ''Rate limit exceeded: 3 commands per minute'',
                 retryAfter = Some 1\<rparr>"
    unfolding l3 r4 by simp
  show "fst (canExecute t5 c5
               (afterCalls [(t1, c1), (t2, c2), (t3, c3), (t4, c4)] (newCommandRateLimiter 3 1000)))
          = Inr admitted"
    unfolding l4 using t by (simp add: canExecute_def admitted_def)
  show "reset (afterCalls [(t1, c1), (t2, c2), (t3, c3), (t4, c4)] (newCommandRateLimiter 3 1000))
          = newCommandRateLimiter 3 1000"
    unfolding l4 by (simp add: reset_def newCommandRateLimiter_def)
  show "fst (canExecute t4 c5 (reset
               (afterCalls [(t1, c1), (t2, c2), (t3, c3), (t4, c4)] (newCommandRateLimiter 3 1000))))
          = Inr admitted"
    unfolding l4 by (simp add: reset_def canExecute_def admitted_def)
qed


theorem canExecute_admission_witness:
  "int (length (unexpired 1000
       (afterCalls [(0, ''cmd1''), (10, ''cmd2''), (20, ''cmd3'')] (newCommandRateLimiter 3 1000))))
     < maxCommandsPerMinute
       (afterCalls [(0, ''cmd1''), (10, ''cmd2''), (20, ''cmd3'')] (newCommandRateLimiter 3 1000))
   \<and> 0 < maxCommandsPerMinute
       (afterCalls [(0, ''cmd1''), (10, ''cmd2''), (20, ''cmd3'')] (newCommandRateLimiter 3 1000))
   \<and> maxCommandsPerMinute
       (afterCalls [(0, ''cmd1''), (10, ''cmd2''), (20, ''cmd3'')] (newCommandRateLimiter 3 1000))
     \<le> int (length (unexpired 30
       (afterCalls [(0, ''cmd1''), (10, ''cmd2''), (20, ''cmd3'')] (newCommandRateLimiter 3 1000))))
   \<and> ((0::int) \<le> 10 \<and> (10::int) \<le> 20 \<and> (20::int) \<le> 30 \<and> (30::int) < 0 + 1000
        \<and> (0::int) + 1000 \<le> 1000)
   \<and> commandHistory (snd (canExecute 1000 ''cmd5''
       (afterCalls [(0, ''cmd1''), (10, ''cmd2''), (20, ''cmd3'')] (newCommandRateLimiter 3 1000))))
       = [(10, ''cmd2''), (20, ''cmd3''), (1000, ''cmd5'')]
   \<and> retryAfter (projr (fst (canExecute 30 ''cmd4''
       (afterCalls [(0, ''cmd1''), (10, ''cmd2''), (20, ''cmd3'')] (newCommandRateLimiter 3 1000)))))
       = Some 1
   \<and> fst (canExecute 1000 ''cmd5''
        (afterCalls [(0, ''cmd1''), (10, ''cmd2''), (20, ''cmd3''), (30, ''cmd4'')]
           (newCommandRateLimiter 3 1000))) = Inr admitted"
proof -
  let ?l = "afterCalls [(0, ''cmd1''), (10, ''cmd2''), (20, ''cmd3'')] (newCommandRateLimiter 3 1000)"
  have h1: "int (length (unexpired 1000 ?l)) < maxCommandsPerMinute ?l" by code_simp
  have h2: "0 < maxCommandsPerMinute ?l \<and> maxCommandsPerMinute ?l \<le> int (length (unexpired 30 ?l))"
    by code_simp
  have h3: "(0::int) \<le> 10 \<and> (10::int) \<le> 20 \<and> (20::int) \<le> 30 \<and> (30::int) < 0 + 1000
        \<and> (0::int) + 1000 \<le> 1000" by simp
  have e1: "unexpired 1000 ?l = [(10, ''cmd2''), (20, ''cmd3'')]" by code_simp
  have e2: "ceilDiv1000 (fst (hd (unexpired 30 ?l)) + windowMs ?l - 30) = 1" by code_simp
  note inst = canExecute_admission [where now = 1000 and limiter = ?l and command = "''cmd5''"
      and later = 30 and full = ?l and request = "''cmd4''"
      and ?t1.0 = 0 and ?t2.0 = 10 and ?t3.0 = 20 and ?t4.0 = 30 and ?t5.0 = 1000
      and ?c1.0 = "''cmd1''" and ?c2.0 = "''cmd2''" and ?c3.0 = "''cmd3''" and ?c4.0 = "''cmd4''"
      and ?c5.0 = "''cmd5''"]
  from inst h1 have a: "canExecute 1000 ''cmd5'' ?l =
        (Inr admitted, ?l\<lparr>commandHistory := unexpired 1000 ?l @ [(1000, ''cmd5'')]\<rparr>)"
    by blast
  from inst h2 have b: "canExecute 30 ''cmd4'' ?l =
        (Inr \<lparr>allowed = False,
              rateReason = Some (''Rate limit exceeded: '' @ showInt (maxCommandsPerMinute ?l) @
                                 '' commands per minute''),
              retryAfter = Some (ceilDiv1000 (fst (hd (unexpired 30 ?l)) + windowMs ?l - 30))\<rparr>,
         ?l\<lparr>commandHistory := unexpired 30 ?l\<rparr>)"
    by blast
  from inst h3 have c: "fst (canExecute 1000 ''cmd5''
        (afterCalls [(0, ''cmd1''), (10, ''cmd2''), (20, ''cmd3''), (30, ''cmd4'')]
           (newCommandRateLimiter 3 1000))) = Inr admitted"
    by blast
  from a e1 have a': "commandHistory (snd (canExecute 1000 ''cmd5'' ?l))
       = [(10, ''cmd2''), (20, ''cmd3''), (1000, ''cmd5'')]" by simp
  from b e2 have b': "retryAfter (projr (fst (canExecute 30 ''cmd4'' ?l))) = Some 1" by simp
  from h1 h2 h3 a' b' c show ?thesis by blast
qed

section \<open>The safety gate of the shell tool\<close>

lemma validateCommand_warning:
  assumes "\<not> isValid (validateCommand command)"
  shows "getCommandWarningMessage command =
           Some ((if severity (validateCommand command) = Some Error then noEntryEmoji
                  else warningEmoji) @ '' '' @ printed (reason (validateCommand command)))"
  using assms by (simp add: getCommandWarningMessage_def Let_def)

text \<open>
  C10. For a command that \<^verbatim>\<open>validateCommand\<close> rejects, \<^verbatim>\<open>execute\<close> returns the blocked result
  (no success, the error text \<^verbatim>\<open>Command blocked for safety:\<close> with the warning message),
  makes no call to the outside, and leaves the tool as it was: the rate limiter is not
  consulted, so its window, not even purged, and its statistics at any time are unchanged.
\<close>

theorem blocked_before_rate_limiter:
  assumes "\<not> isValid (validateCommand command)"
  shows "after (execute w now command timeout tool) = tool
       \<and> rateLimiter (after (execute w now command timeout tool)) = rateLimiter tool
       \<and> getStats later (rateLimiter (after (execute w now command timeout tool))) =
           getStats later (rateLimiter tool)
       \<and> effects (execute w now command timeout tool) = []
       \<and> answer (execute w now command timeout tool) =
           \<lparr>tr_success = False, tr_output = None,
            tr_error = Some (''Command blocked for safety: '' @
              (if severity (validateCommand command) = Some Error then noEntryEmoji
               else warningEmoji) @ '' '' @ printed (reason (validateCommand command)))\<rparr>"
proof -
  have e: "noEntryEmoji \<noteq> [] \<and> warningEmoji \<noteq> []"
    by (simp add: noEntryEmoji_def warningEmoji_def)
  with assms show ?thesis
    by (simp add: execute_def Let_def validateCommand_warning orElse_def failure_def)
qed

theorem blocked_before_rate_limiter_witness:
  "\<not> isValid (validateCommand ''rm -rf /'')
   \<and> after (execute rejectingWorld 70000 ''rm -rf /'' 30000 usedTool) = usedTool
   \<and> commandHistory (rateLimiter (after (execute rejectingWorld 70000 ''rm -rf /'' 30000 usedTool)))
       = [(0, ''ls'')]
   \<and> commandHistory (rateLimiter (after (execute rejectingWorld 70000 ''ls'' 30000 usedTool)))
       = [(70000, ''ls'')]"
proof -
  have h: "\<not> isValid (validateCommand ''rm -rf /'')" by code_simp
  have u: "commandHistory (rateLimiter usedTool) = [(0, ''ls'')]" by code_simp
  have v: "commandHistory (rateLimiter (after (execute rejectingWorld 70000 ''ls'' 30000 usedTool)))
       = [(70000, ''ls'')]" by code_simp
  from blocked_before_rate_limiter [OF h, of rejectingWorld 70000 30000 usedTool] u v h
  show ?thesis by simp
qed

text \<open>
  C7. For a command whose first word is in \<^verbatim>\<open>HIGH_RISK_COMMANDS\<close> and which passes validation
  and the rate limiter, \<^verbatim>\<open>execute\<close> first requests confirmation, whatever the session flags
  are; and unless the confirmation service answers with \<^verbatim>\<open>confirmed\<close>, that request is its
  only effect: the command is not run and no directory is changed.
\<close>

theorem high_risk_needs_confirmation:
  assumes "isHighRiskCommand command"
    and "isValid (validateCommand command)"
    and "canExecute now command (rateLimiter tool) = (Inr rateLimitCheck, limiter)"
    and "allowed rateLimitCheck"
  shows "take 1 (effects (execute w now command timeout tool)) =
           [ConfirmationRequested (confirmationFor command (tool\<lparr>rateLimiter := limiter\<rparr>))]
       \<and> (effects (execute w now command timeout tool) =
             [ConfirmationRequested (confirmationFor command (tool\<lparr>rateLimiter := limiter\<rparr>))]
          \<or> (\<exists>confirmationResult.
                requestConfirmation w (confirmationFor command (tool\<lparr>rateLimiter := limiter\<rparr>))
                  ''bash'' = Inr confirmationResult
                \<and> confirmed confirmationResult))"
  using assms
  by (auto simp: execute_def Let_def runCommand_def split: sum.splits prod.splits)

theorem high_risk_needs_confirmation_witness:
  "isHighRiskCommand ''rm file.txt'' \<and> isValid (validateCommand ''rm file.txt'')
   \<and> canExecute 5 ''rm file.txt'' (rateLimiter freshTool) =
       (Inr admitted, (rateLimiter freshTool)\<lparr>commandHistory := [(5, ''rm file.txt'')]\<rparr>)
   \<and> allowed admitted
   \<and> bashCommands (getSessionFlags rejectingWorld) \<and> allOperations (getSessionFlags rejectingWorld)
   \<and> effects (execute rejectingWorld 5 ''rm file.txt'' 30000 freshTool) =
       [ConfirmationRequested (confirmationFor ''rm file.txt''
          (freshTool\<lparr>rateLimiter := (rateLimiter freshTool)\<lparr>commandHistory := [(5, ''rm file.txt'')]\<rparr>\<rparr>))]
   \<and> answer (execute rejectingWorld 5 ''rm file.txt'' 30000 freshTool) =
       failure ''Command execution cancelled by user''"
proof -
  have h1: "isHighRiskCommand ''rm file.txt''" by code_simp
  have h2: "isValid (validateCommand ''rm file.txt'')" by code_simp
  have h3: "canExecute 5 ''rm file.txt'' (rateLimiter freshTool) =
       (Inr admitted, (rateLimiter freshTool)\<lparr>commandHistory := [(5, ''rm file.txt'')]\<rparr>)"
    by code_simp
  have h4: "allowed admitted" by (simp add: admitted_def)
  have f: "bashCommands (getSessionFlags rejectingWorld) \<and> allOperations (getSessionFlags rejectingWorld)"
    by (simp add: rejectingWorld_def)
  have n: "\<not> (\<exists>confirmationResult. requestConfirmation rejectingWorld
       (confirmationFor ''rm file.txt''
          (freshTool\<lparr>rateLimiter := (rateLimiter freshTool)\<lparr>commandHistory := [(5, ''rm file.txt'')]\<rparr>\<rparr>))
       ''bash'' = Inr confirmationResult \<and> confirmed confirmationResult)"
    by (simp add: rejectingWorld_def)
  have a: "answer (execute rejectingWorld 5 ''rm file.txt'' 30000 freshTool) =
       failure ''Command execution cancelled by user''" by code_simp
  from high_risk_needs_confirmation [OF h1 h2 h3 h4, of rejectingWorld 30000] n
  have "effects (execute rejectingWorld 5 ''rm file.txt'' 30000 freshTool) =
       [ConfirmationRequested (confirmationFor ''rm file.txt''
          (freshTool\<lparr>rateLimiter := (rateLimiter freshTool)\<lparr>commandHistory := [(5, ''rm file.txt'')]\<rparr>\<rparr>))]"
    by blast
  with h1 h2 h3 h4 f a show ?thesis by blast
qed


end
